theory Spec2Isabelle
  imports Complex_Main "HOL-Library.Char_ord" "HOL-Library.List_Lexorder"
begin

section \<open>Tables\<close>

text \<open>
  A cell of a text column is a string or missing (\<open>None\<close>, pandas' NaN); a cell of a
  numeric column is a finite number or missing. Numbers are rationals: every finite
  float and every integer is one, and comparison, maximum and truncation on them are
  exact. Strings are byte lists in UTF-8, whose lexicographic order is the order of
  Python's code points.
\<close>

record raw_row =
  empresa :: "string option"
  frente :: "string option"
  produto_principal :: "string option"
  n_produtos_total :: "rat option"

record derived_row = raw_row +
  n_frentes_calc :: "rat option"
  n_produtos_total_calc :: "rat option"

text \<open>
  A frame has its column labels and its rows. A row record holds the cells of the four
  required columns and of the derived ones; other columns are carried along by pandas
  and never read by the program.
\<close>

record 'r frame =
  columns :: "string list"
  rows :: "'r list"

type_synonym raw_frame = "raw_row frame"
type_synonym derived_frame = "derived_row frame"

datatype pyerror =
  NameError string
  | ValueError "string list"
  | TypeError
  | FileNotFoundError string
  | WorksheetNotFound string

section \<open>Column names\<close>

definition COL_EMPRESA :: string where
  "COL_EMPRESA = ''Empresa relacionada - Nomes''"

definition COL_FRENTE :: string where
  "COL_FRENTE = ''Frente de Neg'' @ [CHR 0xC3, CHR 0xB3] @ ''cio''"

definition COL_PRODUTO :: string where
  "COL_PRODUTO = ''Produto Principal''"

definition COL_N_PRODUTOS :: string where
  "COL_N_PRODUTOS = ''N_produtos_total''"

definition REQUIRED_COLS :: "string list" where
  "REQUIRED_COLS = [COL_EMPRESA, COL_FRENTE, COL_PRODUTO, COL_N_PRODUTOS]"

section \<open>Loading\<close>

text \<open>
  A workbook maps a sheet name to its table, a file system maps a path to a workbook.
  \<open>pd.read_excel\<close> raises when the file or the sheet is not there.
\<close>

type_synonym workbook = "string \<rightharpoonup> raw_frame"
type_synonym filesystem = "string \<rightharpoonup> workbook"

definition read_sheet :: "workbook \<Rightarrow> string \<Rightarrow> pyerror + raw_frame" where
  "read_sheet wb sheet =
     (case wb sheet of None \<Rightarrow> Inl (WorksheetNotFound sheet) | Some df \<Rightarrow> Inr df)"

definition read_excel :: "filesystem \<Rightarrow> string \<Rightarrow> string \<Rightarrow> pyerror + raw_frame" where
  "read_excel fs file sheet =
     (case fs file of None \<Rightarrow> Inl (FileNotFoundError file) | Some wb \<Rightarrow> read_sheet wb sheet)"

text \<open>
  Names in a function body are looked up in the function's locals, then in the module's
  globals. The module binds, before its first statement that calls anything, the three
  imports, \<open>REQUIRED_COLS\<close> and the functions.
\<close>

datatype pyval = Module | Function | StrList "string list" | StrVal string

definition module_globals :: "(string \<times> pyval) list" where
  "module_globals =
     [(''pd'', Module), (''st'', Module), (''px'', Module),
      (''REQUIRED_COLS'', StrList REQUIRED_COLS),
      (''load_default_df'', Function), (''load_uploaded_df'', Function),
      (''validate_df'', Function), (''ensure_metrics'', Function),
      (''client_table'', Function), (''bar_with_labels'', Function)]"

definition lookup_name :: "(string \<times> pyval) list \<Rightarrow> string \<Rightarrow> pyerror + pyval" where
  "lookup_name locals n =
     (case map_of locals n of
        Some v \<Rightarrow> Inr v
      | None \<Rightarrow> (case map_of module_globals n of Some v \<Rightarrow> Inr v | None \<Rightarrow> Inl (NameError n)))"

text \<open>
  The module defines \<open>load_default_df\<close> twice. The first body only binds two locals
  and returns nothing; the second definition replaces it and is the one every call runs.
\<close>

definition DEFAULT_FILE :: string where
  "DEFAULT_FILE = ''Clientes_25-26_frentes_padronizado.xlsx''"

definition DEFAULT_SHEET :: string where
  "DEFAULT_SHEET = ''Brasil_Latam''"

definition first_def_locals :: "(string \<times> pyval) list" where
  "first_def_locals = [(''DEFAULT_FILE'', StrVal DEFAULT_FILE), (''DEFAULT_SHEET'', StrVal DEFAULT_SHEET)]"

definition load_default_df_body :: "(string \<times> pyval) list \<Rightarrow> filesystem \<Rightarrow> pyerror + raw_frame" where
  "load_default_df_body locals fs =
     (case lookup_name locals ''DEFAULT_FILE'' of
        Inl e \<Rightarrow> Inl e
      | Inr f \<Rightarrow>
          (case lookup_name locals ''DEFAULT_SHEET'' of
             Inl e \<Rightarrow> Inl e
           | Inr s \<Rightarrow>
               (case (f, s) of
                  (StrVal file, StrVal sheet) \<Rightarrow> read_excel fs file sheet
                | _ \<Rightarrow> Inl TypeError)))"

definition load_default_df :: "filesystem \<Rightarrow> pyerror + raw_frame" where
  "load_default_df fs = load_default_df_body [] fs"

definition load_uploaded_df :: "workbook \<Rightarrow> pyerror + raw_frame" where
  "load_uploaded_df uploaded_file = read_sheet uploaded_file ''Brasil_Latam''"

section \<open>Validation\<close>

definition validate_df :: "'r frame \<Rightarrow> pyerror + unit" where
  "validate_df df =
     (let missing = filter (\<lambda>c. c \<notin> set (columns df)) REQUIRED_COLS
      in if missing \<noteq> [] then Inl (ValueError missing) else Inr ())"

section \<open>Metrics\<close>

text \<open>
  \<open>groupby\<close> drops the rows whose key is missing and yields the groups in the
  sorted order of their keys.
\<close>

definition group_keys :: "('r \<Rightarrow> string option) \<Rightarrow> 'r list \<Rightarrow> string list" where
  "group_keys key rs = sort (remdups (List.map_filter key rs))"

definition group_of :: "('r \<Rightarrow> string option) \<Rightarrow> 'r list \<Rightarrow> string \<Rightarrow> 'r list" where
  "group_of key rs k = filter (\<lambda>r. key r = Some k) rs"

definition groupby_agg ::
    "('r \<Rightarrow> string option) \<Rightarrow> ('r list \<Rightarrow> 'v) \<Rightarrow> 'r list \<Rightarrow> (string \<times> 'v) list" where
  "groupby_agg key agg rs = map (\<lambda>k. (k, agg (group_of key rs k))) (group_keys key rs)"

text \<open>\<open>nunique\<close> counts the distinct values that are not missing.\<close>

definition nunique :: "'a option list \<Rightarrow> nat" where
  "nunique vs = length (remdups (List.map_filter id vs))"

text \<open>\<open>max\<close> skips the missing values; it is missing when nothing is left.\<close>

definition series_max :: "rat option list \<Rightarrow> rat option" where
  "series_max vs = (case List.map_filter id vs of [] \<Rightarrow> None | x # xs \<Rightarrow> Some (fold max xs x))"

text \<open>
  A left merge on the key looks each left row's key up in the right table, whose keys
  are unique; a key that is missing or not there gives no match.
\<close>

definition merge_left :: "(string \<times> 'v) list \<Rightarrow> string option \<Rightarrow> 'v option" where
  "merge_left right k = (case k of None \<Rightarrow> None | Some c \<Rightarrow> map_of right c)"

text \<open>
  \<open>ensure_metrics\<close> builds the two per-client tables and merges each onto the rows
  of the input, which keep their order. The input is taken to have no column labelled
  like one of the two derived columns already.
\<close>

definition ensure_metrics :: "raw_frame \<Rightarrow> derived_frame" where
  "ensure_metrics df =
     (let fr = groupby_agg empresa (\<lambda>g. nunique (map frente g)) (rows df);
          pr = groupby_agg empresa (\<lambda>g. series_max (map n_produtos_total g)) (rows df)
      in \<lparr>columns = columns df @ [''N_frentes_calc'', ''N_produtos_total_calc''],
          rows = map (\<lambda>r.
            \<lparr>empresa = empresa r, frente = frente r,
             produto_principal = produto_principal r, n_produtos_total = n_produtos_total r,
             n_frentes_calc = map_option of_nat (merge_left fr (empresa r)),
             n_produtos_total_calc =
               (case merge_left pr (empresa r) of None \<Rightarrow> None | Some v \<Rightarrow> v)\<rparr>) (rows df)\<rparr>)"

record summary_row =
  nome :: string
  n_frentes :: int
  n_produtos :: int

text \<open>
  \<open>pd.to_numeric(errors="coerce")\<close> keeps a number and turns anything else into
  missing; \<open>dropna\<close> removes the rows with a missing cell in either column;
  \<open>astype(int)\<close> truncates towards zero (the numbers of a table lie within the
  64-bit integers, where the cast is exact).
\<close>

definition to_numeric :: "rat option \<Rightarrow> rat option" where
  "to_numeric v = (case v of None \<Rightarrow> None | Some q \<Rightarrow> Some q)"

definition dropna :: "(string \<times> rat option \<times> rat option) list \<Rightarrow> (string \<times> rat \<times> rat) list" where
  "dropna out =
     List.map_filter (\<lambda>(k, f, p).
       (case f of None \<Rightarrow> None
        | Some a \<Rightarrow> (case p of None \<Rightarrow> None | Some b \<Rightarrow> Some (k, a, b)))) out"

definition astype_int :: "rat \<Rightarrow> int" where
  "astype_int q = (if 0 \<le> q then \<lfloor>q\<rfloor> else \<lceil>q\<rceil>)"

definition client_table :: "derived_frame \<Rightarrow> summary_row list" where
  "client_table df =
     (let out = groupby_agg empresa
                  (\<lambda>g. (series_max (map n_frentes_calc g), series_max (map n_produtos_total_calc g)))
                  (rows df);
          out = map (\<lambda>(k, f, p). (k, to_numeric f, to_numeric p)) out;
          out = dropna out
      in map (\<lambda>(k, f, p). \<lparr>nome = k, n_frentes = astype_int f, n_produtos = astype_int p\<rparr>) out)"

section \<open>The page\<close>

text \<open>
  What the blocks below put on the page, in order: messages, headings, charts, metrics
  and tables (the widgets and the page title are left out). A chart or a metric carries
  the data it is drawn from, not its layout or number format; texts carry their literal. The treemap's rows
  are the first \<open>top_n\<close> of the filtered table sorted by the selected column,
  descending, with no order fixed among equal values: the event carries the sort's
  inputs.
\<close>

datatype mode = Frentes | Produtos

datatype ui =
  Error string
  | Warning string
  | Success string
  | Subheader string
  | Caption string
  | Markdown string
  | Divider
  | Treemap mode nat "summary_row list"
  | Metric string "int list" "rat option"
  | BarChart string "(int \<times> nat) list"
  | Dataframe derived_frame

definition a_acute :: string where "a_acute = [CHR 0xC3, CHR 0xA1]"
definition a_tilde :: string where "a_tilde = [CHR 0xC3, CHR 0xA3]"
definition c_cedil :: string where "c_cedil = [CHR 0xC3, CHR 0xA7]"
definition e_acute :: string where "e_acute = [CHR 0xC3, CHR 0xA9]"
definition ord_masc :: string where "ord_masc = [CHR 0xC2, CHR 0xBA]"
definition ge_sign :: string where "ge_sign = [CHR 0xE2, CHR 0x89, CHR 0xA5]"

section \<open>Session state\<close>

text \<open>
  \<open>st.session_state\<close> outlives a run of the script; a key that was never assigned is
  \<open>None\<close>. A block of statements returns the state it leaves, what it put on the
  page, and the exception that ended it, if any: an assignment made before a raise stays.
\<close>

record session =
  df_cached :: "derived_frame option"
  client_list :: "string list option"

type_synonym 'x block = "session \<times> ui list \<times> 'x"

definition init_session :: "filesystem \<Rightarrow> session \<Rightarrow> pyerror option block" where
  "init_session fs s =
     (case (if df_cached s = None then
              (case load_default_df fs of
                 Inl e \<Rightarrow> Inl e
               | Inr df0 \<Rightarrow>
                   (case validate_df df0 of
                      Inl e \<Rightarrow> Inl e
                    | Inr _ \<Rightarrow> Inr (s\<lparr>df_cached := Some (ensure_metrics df0)\<rparr>)))
            else Inr s) of
        Inl e \<Rightarrow> (s, [], Some e)
      | Inr s1 \<Rightarrow>
          (if client_list s1 = None then s1\<lparr>client_list := Some []\<rparr> else s1, [], None))"

definition on_use_default :: "filesystem \<Rightarrow> session \<Rightarrow> pyerror option block" where
  "on_use_default fs s =
     (case load_default_df fs of
        Inl e \<Rightarrow> (s, [], Some e)
      | Inr df0 \<Rightarrow>
          (case validate_df df0 of
             Inl e \<Rightarrow> (s, [], Some e)
           | Inr _ \<Rightarrow>
               (s\<lparr>df_cached := Some (ensure_metrics df0), client_list := Some []\<rparr>,
                [Success (''Base padr'' @ a_tilde @ ''o carregada.'')], None)))"

definition on_use_uploaded :: "workbook \<Rightarrow> session \<Rightarrow> pyerror option block" where
  "on_use_uploaded uploaded s =
     (case load_uploaded_df uploaded of
        Inl e \<Rightarrow> (s, [], Some e)
      | Inr dfu \<Rightarrow>
          (case validate_df dfu of
             Inl e \<Rightarrow> (s, [], Some e)
           | Inr _ \<Rightarrow>
               (s\<lparr>df_cached := Some (ensure_metrics dfu), client_list := Some []\<rparr>,
                [Success ''Base enviada carregada.''], None)))"

section \<open>Client table and bounds\<close>

text \<open>
  The script stops on an empty client table; otherwise it takes the minimum and the
  maximum of each metric, which seed the sliders.
\<close>

definition min_max :: "int list \<Rightarrow> int \<times> int" where
  "min_max xs = (Min (set xs), Max (set xs))"

definition data_section ::
    "derived_frame \<Rightarrow> ui list \<times> (summary_row list \<times> (int \<times> int) \<times> (int \<times> int)) option" where
  "data_section df =
     (let clients = client_table df
      in if clients = [] then
           ([Error (''N'' @ a_tilde @ ''o h'' @ a_acute @ '' clientes v'' @ a_acute
                    @ ''lidos para analisar (verifique a base).'')], None)
         else ([], Some (clients, min_max (map n_frentes clients), min_max (map n_produtos clients))))"

definition slider_default :: "mode \<Rightarrow> (int \<times> int) \<Rightarrow> (int \<times> int) \<Rightarrow> int \<times> int" where
  "slider_default m fr pr = (if m = Frentes then fr else pr)"

section \<open>Filters\<close>

definition between :: "int \<Rightarrow> int \<Rightarrow> int \<Rightarrow> bool" where
  "between v lo hi = (lo \<le> v \<and> v \<le> hi)"

definition range_filter :: "mode \<Rightarrow> int \<times> int \<Rightarrow> summary_row list \<Rightarrow> summary_row list" where
  "range_filter m metric_range clients =
     (if m = Frentes then
        filter (\<lambda>r. between (n_frentes r) (fst metric_range) (snd metric_range)) clients
      else
        filter (\<lambda>r. between (n_produtos r) (fst metric_range) (snd metric_range)) clients)"

definition value_col :: "mode \<Rightarrow> summary_row \<Rightarrow> int" where
  "value_col m = (if m = Frentes then n_frentes else n_produtos)"

definition subtitle :: "mode \<Rightarrow> string" where
  "subtitle m =
     (if m = Frentes then ''Tamanho do bloco = N'' @ ord_masc @ '' de frentes''
      else ''Tamanho do bloco = N'' @ ord_masc @ '' de produtos'')"

definition list_filter :: "string list \<Rightarrow> summary_row list \<Rightarrow> summary_row list" where
  "list_filter selected base_filtered =
     (if selected \<noteq> [] then filter (\<lambda>r. nome r \<in> set selected) base_filtered
      else base_filtered)"

definition apply_filters ::
    "mode \<Rightarrow> int \<times> int \<Rightarrow> string list \<Rightarrow> summary_row list \<Rightarrow> summary_row list" where
  "apply_filters m metric_range selected clients =
     list_filter selected (range_filter m metric_range clients)"

section \<open>Presentation\<close>

definition value_counts :: "int list \<Rightarrow> (int \<times> nat) list" where
  "value_counts xs = map (\<lambda>v. (v, count_list xs v)) (sort (remdups xs))"

definition merge_inner :: "derived_frame \<Rightarrow> string list \<Rightarrow> derived_frame" where
  "merge_inner df names =
     \<lparr>columns = columns df,
      rows = filter (\<lambda>r. case empresa r of None \<Rightarrow> False | Some k \<Rightarrow> k \<in> set names) (rows df)\<rparr>"

definition kpis :: "summary_row list \<Rightarrow> ui list" where
  "kpis base_filtered =
     (let total_clients = length base_filtered;
          clients_2p_frentes = length (filter (\<lambda>r. 2 \<le> n_frentes r) base_filtered);
          clients_2p_produtos = length (filter (\<lambda>r. 2 \<le> n_produtos r) base_filtered);
          max_fr = (if total_clients \<noteq> 0 then Max (set (map n_frentes base_filtered)) else 0);
          max_pr = (if total_clients \<noteq> 0 then Max (set (map n_produtos base_filtered)) else 0);
          share = (\<lambda>k. if total_clients \<noteq> 0 then Some (Fract (int k) (int total_clients)) else None)
      in [Metric ''Clientes (no recorte)'' [int total_clients] None,
          Metric (''Clientes com '' @ ge_sign @ ''2 frentes'') [int clients_2p_frentes]
            (share clients_2p_frentes),
          Metric (''Clientes com '' @ ge_sign @ ''2 produtos'') [int clients_2p_produtos]
            (share clients_2p_produtos),
          Metric (''M'' @ a_acute @ ''ximos no recorte'') [max_fr, max_pr] None])"

text \<open>
  Everything after the filters. \<open>st.stop()\<close> ends the run without an exception
  reaching the user; the flag says whether the run went on to the end.
\<close>

definition presentation ::
    "mode \<Rightarrow> nat \<Rightarrow> derived_frame \<Rightarrow> summary_row list \<Rightarrow> ui list \<times> bool" where
  "presentation m top_n df base_filtered =
     (if base_filtered = [] then
        ([Warning (''Com esses filtros, n'' @ a_tilde @ ''o h'' @ a_acute
                   @ '' clientes para exibir. Ajuste a faixa ou a lista.'')], False)
      else
        ([Subheader ''Visual principal'', Caption (subtitle m),
          Treemap m top_n base_filtered, Divider,
          Subheader ''KPIs''] @ kpis base_filtered @
         [Divider, Subheader ''Indicadores'',
          Markdown (''**Distribui'' @ c_cedil @ a_tilde @ ''o: n'' @ ord_masc
                    @ '' de frentes por cliente**''),
          BarChart (''N'' @ ord_masc @ '' de frentes'') (value_counts (map n_frentes base_filtered)),
          Markdown (''**Distribui'' @ c_cedil @ a_tilde @ ''o: n'' @ ord_masc
                    @ '' de produtos por cliente**''),
          BarChart (''N'' @ ord_masc @ '' de produtos'') (value_counts (map n_produtos base_filtered)),
          Divider, Subheader (''Tabela (r'' @ e_acute @ ''plica da base)''),
          Dataframe (merge_inner df (map nome base_filtered))], True))"

text \<open>The events that draw data: charts, metrics and tables.\<close>

fun draws_data :: "ui \<Rightarrow> bool" where
  "draws_data (Treemap _ _ _) = True"
| "draws_data (Metric _ _ _) = True"
| "draws_data (BarChart _ _) = True"
| "draws_data (Dataframe _) = True"
| "draws_data _ = False"

fun is_error :: "ui \<Rightarrow> bool" where
  "is_error (Error _) = True"
| "is_error _ = False"

section \<open>Example tables\<close>

definition acme_ops :: raw_row where
  "acme_ops = \<lparr>empresa = Some ''Acme'', frente = Some ''Ops'', produto_principal = None,
     n_produtos_total = Some 5\<rparr>"

definition acme_sales :: raw_row where
  "acme_sales = \<lparr>empresa = Some ''Acme'', frente = Some ''Sales'', produto_principal = None,
     n_produtos_total = Some 5\<rparr>"

definition beta_ops :: raw_row where
  "beta_ops = \<lparr>empresa = Some ''Beta'', frente = Some ''Ops'', produto_principal = None,
     n_produtos_total = Some 3\<rparr>"

definition sample_frame :: raw_frame where
  "sample_frame = \<lparr>columns = REQUIRED_COLS, rows = [acme_ops, acme_sales, beta_ops]\<rparr>"

definition shuffled_frame :: raw_frame where
  "shuffled_frame = \<lparr>columns = REQUIRED_COLS, rows = [beta_ops, acme_sales, acme_ops, acme_sales]\<rparr>"

definition derive :: "raw_row \<Rightarrow> rat option \<Rightarrow> rat option \<Rightarrow> derived_row" where
  "derive r f p =
     \<lparr>empresa = empresa r, frente = frente r, produto_principal = produto_principal r,
      n_produtos_total = n_produtos_total r, n_frentes_calc = f, n_produtos_total_calc = p\<rparr>"

definition sample_fs :: filesystem where
  "sample_fs = map_of [(DEFAULT_FILE, map_of [(DEFAULT_SHEET, sample_frame)])]"

definition two_column_frame :: raw_frame where
  "two_column_frame = \<lparr>columns = [COL_EMPRESA, COL_PRODUTO], rows = []\<rparr>"

definition fresh_session :: session where
  "fresh_session = \<lparr>df_cached = None, client_list = None\<rparr>"

definition gama_ops :: raw_row where
  "gama_ops = \<lparr>empresa = Some ''Gama'', frente = Some ''Ops'', produto_principal = None,
     n_produtos_total = None\<rparr>"

definition gama_frame :: raw_frame where
  "gama_frame = \<lparr>columns = REQUIRED_COLS, rows = [acme_ops, gama_ops, acme_sales, beta_ops]\<rparr>"

definition acme_summary :: summary_row where
  "acme_summary = \<lparr>nome = ''Acme'', n_frentes = 2, n_produtos = 5\<rparr>"

definition beta_summary :: summary_row where
  "beta_summary = \<lparr>nome = ''Beta'', n_frentes = 1, n_produtos = 3\<rparr>"

definition blank_row :: raw_row where
  "blank_row = \<lparr>empresa = Some ''Acme'', frente = Some '''', produto_principal = None,
     n_produtos_total = Some 5\<rparr>"

definition blank_front_frame :: raw_frame where
  "blank_front_frame = \<lparr>columns = REQUIRED_COLS, rows = [blank_row]\<rparr>"

definition missing_front_frame :: raw_frame where
  "missing_front_frame = \<lparr>columns = REQUIRED_COLS,
     rows = [\<lparr>empresa = Some ''Acme'', frente = None, produto_principal = None,
              n_produtos_total = Some 5\<rparr>]\<rparr>"

definition two_column_workbook :: workbook where
  "two_column_workbook = map_of [(''Brasil_Latam'', two_column_frame)]"

definition active_session :: session where
  "active_session = \<lparr>df_cached = Some (ensure_metrics sample_frame), client_list = Some [''Acme'']\<rparr>"

section \<open>Results\<close>

lemma required_cols_distinct: "distinct REQUIRED_COLS"
  by (simp add: REQUIRED_COLS_def COL_EMPRESA_def COL_FRENTE_def COL_PRODUTO_def COL_N_PRODUTOS_def)

lemma set_group_keys: "set (group_keys key rs) = {k. \<exists>r \<in> set rs. key r = Some k}"
  by (force simp: group_keys_def List.map_filter_def image_iff)



lemma map_of_tabulate: "map_of (map (\<lambda>k. (k, f k)) ks) k = (if k \<in> set ks then Some (f k) else None)"
  by (induction ks) auto

lemma map_of_groupby_agg:
  "map_of (groupby_agg key agg rs) k =
     (if \<exists>r \<in> set rs. key r = Some k then Some (agg (group_of key rs k)) else None)"
  unfolding groupby_agg_def map_of_tabulate set_group_keys by simp

lemma set_map_filter_id: "set (List.map_filter id vs) = {v. Some v \<in> set vs}"
  by (force simp: List.map_filter_def image_iff)

lemma nunique_card: "nunique vs = card {v. Some v \<in> set vs}"
  by (simp add: nunique_def length_remdups_card_conv set_map_filter_id)



lemma fronts_of_group:
  "{v. Some v \<in> set (map frente (group_of empresa rs c))} =
   {f. \<exists>x \<in> set rs. empresa x = Some c \<and> frente x = Some f}"
  by (force simp: group_of_def image_iff)

lemma ensure_metrics_row:
  assumes "r \<in> set (rows (ensure_metrics df))"
  shows "n_frentes_calc r = map_option of_nat
       (merge_left (groupby_agg empresa (\<lambda>g. nunique (map frente g)) (rows df)) (empresa r))"
    and "n_produtos_total_calc r =
       (case merge_left (groupby_agg empresa (\<lambda>g. series_max (map n_produtos_total g)) (rows df)) (empresa r)
        of None \<Rightarrow> None | Some v \<Rightarrow> v)"
    and "\<exists>x \<in> set (rows df). empresa x = empresa r \<and> frente x = frente r
           \<and> n_produtos_total x = n_produtos_total r"
  using assms by (auto simp: ensure_metrics_def Let_def)

lemma n_frentes_calc_of_client:
  assumes "r \<in> set (rows (ensure_metrics df))" "empresa r = Some c"
  shows "n_frentes_calc r =
           Some (of_nat (card {f. \<exists>x \<in> set (rows df). empresa x = Some c \<and> frente x = Some f}))"
proof -
  from assms have ex: "\<exists>x \<in> set (rows df). empresa x = Some c"
    using ensure_metrics_row(3) [of r df] by auto
  show ?thesis
    unfolding ensure_metrics_row(1) [OF assms(1)] assms(2) merge_left_def using ex
    by (simp add: map_of_groupby_agg nunique_card fronts_of_group del: set_map)
qed

lemma n_frentes_calc_missing_client:
  assumes "r \<in> set (rows (ensure_metrics df))" "empresa r = None"
  shows "n_frentes_calc r = None" "n_produtos_total_calc r = None"
  using assms by (auto simp: ensure_metrics_def Let_def merge_left_def)

lemma load_default_df_raises: "load_default_df fs = Inl (NameError ''DEFAULT_FILE'')"
  by (simp add: load_default_df_def load_default_df_body_def lookup_name_def module_globals_def)

text \<open>
  Run with the locals of the first definition, the body of the second reads the default
  file and sheet.
\<close>

lemma load_default_df_body_first_locals:
  "load_default_df_body first_def_locals fs = read_excel fs DEFAULT_FILE DEFAULT_SHEET"
  by (simp add: load_default_df_body_def lookup_name_def first_def_locals_def)

lemma sample_frame_valid: "validate_df sample_frame = Inr ()"
  by (simp add: validate_df_def sample_frame_def)

lemma sample_derived:
  "rows (ensure_metrics sample_frame) =
     [derive acme_ops (Some 2) (Some 5), derive acme_sales (Some 2) (Some 5),
      derive beta_ops (Some 1) (Some 3)]"
  by code_simp

lemma shuffled_derived:
  "rows (ensure_metrics shuffled_frame) =
     [derive beta_ops (Some 1) (Some 3), derive acme_sales (Some 2) (Some 5),
      derive acme_ops (Some 2) (Some 5), derive acme_sales (Some 2) (Some 5)]"
  by code_simp

lemma sample_fronts:
  "{f. \<exists>x \<in> set (rows sample_frame). empresa x = Some ''Acme'' \<and> frente x = Some f}
     = {''Ops'', ''Sales''}"
  by (auto simp: sample_frame_def acme_ops_def acme_sales_def beta_ops_def)

lemma group_values:
  "{v. Some v \<in> set (map f (group_of key rs c))} =
   {v. \<exists>x \<in> set rs. key x = Some c \<and> f x = Some v}"
  by (force simp: group_of_def image_iff)










lemma between_min_max:
  assumes "x \<in> set xs"
  shows "between x (fst (min_max xs)) (snd (min_max xs))"
  using assms by (simp add: between_def min_max_def)

lemma sample_clients: "client_table (ensure_metrics sample_frame) = [acme_summary, beta_summary]"
  by code_simp


lemma gama_derived:
  "rows (ensure_metrics gama_frame) =
     [derive acme_ops (Some 2) (Some 5), derive gama_ops (Some 1) None,
      derive acme_sales (Some 2) (Some 5), derive beta_ops (Some 1) (Some 3)]"
  by code_simp

lemma sample_data_section:
  "data_section (ensure_metrics sample_frame) =
     ([], Some ([acme_summary, beta_summary], (1, 2), (3, 5)))"
  by code_simp

lemma two_column_frame_invalid:
  "validate_df two_column_frame = Inl (ValueError [COL_FRENTE, COL_N_PRODUTOS])"
  by (simp add: validate_df_def two_column_frame_def REQUIRED_COLS_def
      COL_FRENTE_def COL_EMPRESA_def COL_PRODUTO_def COL_N_PRODUTOS_def)

lemma two_column_workbook_loads: "load_uploaded_df two_column_workbook = Inr two_column_frame"
  by (simp add: load_uploaded_df_def read_sheet_def two_column_workbook_def)

lemma card_split_off:
  assumes "finite S"
  shows "card S = card (S - {a}) + (if a \<in> S then 1 else 0)"
proof (cases "a \<in> S")
  case True
  with assms have "card S = Suc (card (S - {a}))" by (rule card.remove)
  with True show ?thesis by simp
next
  case False
  then show ?thesis by simp
qed

section \<open>Claims\<close>

text \<open>
  C1. At the start of the process the active dataset is set from \<open>load_default_df\<close>,
  which returns the table of the default file and sheet whenever they are readable.
  The code does not do this. The name \<open>DEFAULT_FILE\<close> is bound only inside the first,
  replaced definition, so the call raises \<open>NameError\<close> before anything is read. The
  theorem runs the start of the script on a file system whose default file and sheet hold
  a valid table: nothing is loaded, and no dataset becomes active.
\<close>

theorem startup_raises_name_error:
  "read_excel sample_fs DEFAULT_FILE DEFAULT_SHEET = Inr sample_frame \<and>
   validate_df sample_frame = Inr () \<and>
   load_default_df sample_fs = Inl (NameError ''DEFAULT_FILE'') \<and>
   init_session sample_fs fresh_session = (fresh_session, [], Some (NameError ''DEFAULT_FILE''))"
proof -
  have r: "read_excel sample_fs DEFAULT_FILE DEFAULT_SHEET = Inr sample_frame"
    by (simp add: read_excel_def read_sheet_def sample_fs_def)
  have i: "init_session sample_fs fresh_session =
             (fresh_session, [], Some (NameError ''DEFAULT_FILE''))"
    by (simp add: init_session_def load_default_df_raises fresh_session_def)
  from r i sample_frame_valid load_default_df_raises show ?thesis by simp
qed



text \<open>
  C3. On every row of a client, the derived count of fronts is the number of distinct
  business fronts that are not missing among all the rows of that client; a table with
  the same rows in another order, or with rows repeated, gives the same count.
\<close>

theorem fronts_count_is_distinct_fronts:
  "(\<forall>r \<in> set (rows (ensure_metrics df)). \<forall>c. empresa r = Some c \<longrightarrow>
      n_frentes_calc r =
        Some (of_nat (card {f. \<exists>x \<in> set (rows df). empresa x = Some c \<and> frente x = Some f}))) \<and>
   (\<forall>df'. set (rows df') = set (rows df) \<longrightarrow>
      (\<forall>r \<in> set (rows (ensure_metrics df)). \<forall>r' \<in> set (rows (ensure_metrics df')).
         empresa r = empresa r' \<longrightarrow> n_frentes_calc r = n_frentes_calc r'))"
proof (intro conjI ballI allI impI)
  fix r c assume "r \<in> set (rows (ensure_metrics df))" "empresa r = Some c"
  then show "n_frentes_calc r =
        Some (of_nat (card {f. \<exists>x \<in> set (rows df). empresa x = Some c \<and> frente x = Some f}))"
    by (rule n_frentes_calc_of_client)
next
  fix df' r r'
  assume s: "set (rows df') = set (rows df)"
    and r: "r \<in> set (rows (ensure_metrics df))" and r': "r' \<in> set (rows (ensure_metrics df'))"
    and e: "empresa r = empresa r'"
  show "n_frentes_calc r = n_frentes_calc r'"
  proof (cases "empresa r")
    case None
    with r r' e show ?thesis by (simp add: n_frentes_calc_missing_client)
  next
    case (Some c)
    with e have "empresa r' = Some c" by simp
    with r r' Some show ?thesis by (simp add: n_frentes_calc_of_client s)
  qed
qed

theorem fronts_count_is_distinct_fronts_witness:
  "derive acme_ops (Some 2) (Some 5) \<in> set (rows (ensure_metrics sample_frame)) \<and>
   empresa (derive acme_ops (Some 2) (Some 5)) = Some ''Acme'' \<and>
   card {f. \<exists>x \<in> set (rows sample_frame). empresa x = Some ''Acme'' \<and> frente x = Some f} = 2 \<and>
   n_frentes_calc (derive acme_ops (Some 2) (Some 5)) =
     Some (of_nat (card {f. \<exists>x \<in> set (rows sample_frame).
                            empresa x = Some ''Acme'' \<and> frente x = Some f})) \<and>
   set (rows shuffled_frame) = set (rows sample_frame) \<and>
   derive acme_sales (Some 2) (Some 5) \<in> set (rows (ensure_metrics shuffled_frame)) \<and>
   n_frentes_calc (derive acme_ops (Some 2) (Some 5)) =
     n_frentes_calc (derive acme_sales (Some 2) (Some 5))"
proof -
  have m: "derive acme_ops (Some 2) (Some 5) \<in> set (rows (ensure_metrics sample_frame))"
    by (simp add: sample_derived)
  have e: "empresa (derive acme_ops (Some 2) (Some 5)) = Some ''Acme''"
    by (simp add: derive_def acme_ops_def)
  have c: "card {f. \<exists>x \<in> set (rows sample_frame).
                     empresa x = Some ''Acme'' \<and> frente x = Some f} = 2"
    by (simp add: sample_fronts)
  have s: "set (rows shuffled_frame) = set (rows sample_frame)"
    by (auto simp: shuffled_frame_def sample_frame_def)
  have m': "derive acme_sales (Some 2) (Some 5) \<in> set (rows (ensure_metrics shuffled_frame))"
    by (simp add: shuffled_derived)
  have e': "empresa (derive acme_ops (Some 2) (Some 5)) = empresa (derive acme_sales (Some 2) (Some 5))"
    by (simp add: derive_def acme_ops_def acme_sales_def)
  note t = fronts_count_is_distinct_fronts [of sample_frame]
  from t [THEN conjunct1, rule_format, OF m e]
    t [THEN conjunct2, rule_format, OF s m m' e'] m e c s m'
  show ?thesis by simp
qed

text \<open>
  C4. The claim is that an empty-string business front is left out of a client's count of
  distinct fronts, as a missing one is. It is not: \<open>nunique\<close> leaves out the missing
  values only. A client whose single row has the empty string as its front gets the count
  1; with a missing front it gets 0.
\<close>

theorem blank_front_is_counted:
  "map n_frentes_calc (rows (ensure_metrics blank_front_frame)) = [Some 1] \<and>
   map n_frentes_calc (rows (ensure_metrics missing_front_frame)) = [Some 0]"
  by code_simp

text \<open>
  C4, as the code has it. On every row of a client, the derived count of fronts is the
  number of that client's distinct fronts that are neither missing nor the empty string,
  plus one when some row of the client has the empty string as its front.
\<close>

theorem fronts_count_with_blank_front:
  "\<forall>r \<in> set (rows (ensure_metrics df)). \<forall>c. empresa r = Some c \<longrightarrow>
     n_frentes_calc r =
       Some (of_nat
         (card {f. f \<noteq> '''' \<and> (\<exists>x \<in> set (rows df). empresa x = Some c \<and> frente x = Some f)}
          + (if \<exists>x \<in> set (rows df). empresa x = Some c \<and> frente x = Some '''' then 1 else 0)))"
proof (intro ballI allI impI)
  fix r c
  assume r: "r \<in> set (rows (ensure_metrics df))" and c: "empresa r = Some c"
  let ?S = "{f. \<exists>x \<in> set (rows df). empresa x = Some c \<and> frente x = Some f}"
  have "?S = set (List.map_filter id (map frente (group_of empresa (rows df) c)))"
    by (simp only: set_map_filter_id group_values)
  then have fin: "finite ?S" by (metis List.finite_set)
  have split: "{f. f \<noteq> '''' \<and> (\<exists>x \<in> set (rows df). empresa x = Some c \<and> frente x = Some f)}
                 = ?S - {''''}" by blast
  have "card ?S = card (?S - {''''}) + (if '''' \<in> ?S then 1 else 0)"
    using fin by (rule card_split_off)
  then have "card ?S =
      card {f. f \<noteq> '''' \<and> (\<exists>x \<in> set (rows df). empresa x = Some c \<and> frente x = Some f)}
      + (if \<exists>x \<in> set (rows df). empresa x = Some c \<and> frente x = Some '''' then 1 else 0)"
    unfolding split by simp
  with n_frentes_calc_of_client [OF r c]
  show "n_frentes_calc r =
       Some (of_nat
         (card {f. f \<noteq> '''' \<and> (\<exists>x \<in> set (rows df). empresa x = Some c \<and> frente x = Some f)}
          + (if \<exists>x \<in> set (rows df). empresa x = Some c \<and> frente x = Some '''' then 1 else 0)))"
    by simp
qed

theorem fronts_count_with_blank_front_witness:
  "derive blank_row (Some 1) (Some 5) \<in> set (rows (ensure_metrics blank_front_frame)) \<and>
   empresa (derive blank_row (Some 1) (Some 5)) = Some ''Acme'' \<and>
   {f. f \<noteq> '''' \<and> (\<exists>x \<in> set (rows blank_front_frame). empresa x = Some ''Acme'' \<and> frente x = Some f)} = {} \<and>
   (\<exists>x \<in> set (rows blank_front_frame). empresa x = Some ''Acme'' \<and> frente x = Some '''') \<and>
   n_frentes_calc (derive blank_row (Some 1) (Some 5)) = Some 1"
proof -
  have d: "rows (ensure_metrics blank_front_frame) = [derive blank_row (Some 1) (Some 5)]"
    by code_simp
  have m: "derive blank_row (Some 1) (Some 5) \<in> set (rows (ensure_metrics blank_front_frame))"
    by (simp add: d)
  have e: "empresa (derive blank_row (Some 1) (Some 5)) = Some ''Acme''"
    by (simp add: derive_def blank_row_def)
  have n: "{f. f \<noteq> '''' \<and> (\<exists>x \<in> set (rows blank_front_frame).
              empresa x = Some ''Acme'' \<and> frente x = Some f)} = {}"
    by (auto simp: blank_front_frame_def blank_row_def)
  have b: "\<exists>x \<in> set (rows blank_front_frame). empresa x = Some ''Acme'' \<and> frente x = Some ''''"
    by (simp add: blank_front_frame_def blank_row_def)
  from fronts_count_with_blank_front [of blank_front_frame, rule_format, OF m e] n b
  have "n_frentes_calc (derive blank_row (Some 1) (Some 5)) = Some 1" by simp
  with m e n b show ?thesis by blast
qed

text \<open>
  C5. In the output of \<open>ensure_metrics\<close>, two rows with the same client name carry the
  same derived count of fronts and the same derived product total.
\<close>

theorem broadcast_uniform:
  "\<forall>r1 \<in> set (rows (ensure_metrics df)). \<forall>r2 \<in> set (rows (ensure_metrics df)).
     empresa r1 = empresa r2 \<longrightarrow>
       n_frentes_calc r1 = n_frentes_calc r2 \<and> n_produtos_total_calc r1 = n_produtos_total_calc r2"
proof (intro ballI impI)
  fix r1 r2
  assume r1: "r1 \<in> set (rows (ensure_metrics df))" and r2: "r2 \<in> set (rows (ensure_metrics df))"
    and e: "empresa r1 = empresa r2"
  show "n_frentes_calc r1 = n_frentes_calc r2 \<and> n_produtos_total_calc r1 = n_produtos_total_calc r2"
    unfolding ensure_metrics_row(1,2) [OF r1] ensure_metrics_row(1,2) [OF r2] e by simp
qed

theorem broadcast_uniform_witness:
  "derive acme_ops (Some 2) (Some 5) \<in> set (rows (ensure_metrics sample_frame)) \<and>
   derive acme_sales (Some 2) (Some 5) \<in> set (rows (ensure_metrics sample_frame)) \<and>
   empresa (derive acme_ops (Some 2) (Some 5)) = empresa (derive acme_sales (Some 2) (Some 5)) \<and>
   n_frentes_calc (derive acme_ops (Some 2) (Some 5)) =
     n_frentes_calc (derive acme_sales (Some 2) (Some 5)) \<and>
   n_produtos_total_calc (derive acme_ops (Some 2) (Some 5)) =
     n_produtos_total_calc (derive acme_sales (Some 2) (Some 5))"
proof -
  have m1: "derive acme_ops (Some 2) (Some 5) \<in> set (rows (ensure_metrics sample_frame))"
    by (simp add: sample_derived)
  have m2: "derive acme_sales (Some 2) (Some 5) \<in> set (rows (ensure_metrics sample_frame))"
    by (simp add: sample_derived)
  have e: "empresa (derive acme_ops (Some 2) (Some 5)) = empresa (derive acme_sales (Some 2) (Some 5))"
    by (simp add: derive_def acme_ops_def acme_sales_def)
  from broadcast_uniform [of sample_frame, rule_format, OF m1 m2 e] m1 m2 e
  show ?thesis by simp
qed

text \<open>
  C6. \<open>validate_df\<close> returns nothing when every required column is in the table;
  when at least one is absent it raises an error that names all the absent required
  columns, each once. It reads the column labels only and changes nothing.
\<close>

theorem validate_df_names_all_missing:
  "((\<forall>c \<in> set REQUIRED_COLS. c \<in> set (columns df)) \<longrightarrow> validate_df df = Inr ()) \<and>
   ((\<exists>c \<in> set REQUIRED_COLS. c \<notin> set (columns df)) \<longrightarrow>
      (\<exists>ms. validate_df df = Inl (ValueError ms) \<and> distinct ms \<and>
            set ms = {c \<in> set REQUIRED_COLS. c \<notin> set (columns df)}))"
proof -
  let ?ms = "filter (\<lambda>c. c \<notin> set (columns df)) REQUIRED_COLS"
  have e: "?ms = [] \<longleftrightarrow> (\<forall>c \<in> set REQUIRED_COLS. c \<in> set (columns df))"
    by (simp add: filter_empty_conv)
  have d: "distinct ?ms" using required_cols_distinct by simp
  have s: "set ?ms = {c \<in> set REQUIRED_COLS. c \<notin> set (columns df)}" by auto
  show ?thesis
    unfolding validate_df_def Let_def using e d s by auto
qed

theorem validate_df_names_all_missing_witness:
  "validate_df sample_frame = Inr () \<and>
   COL_FRENTE \<in> set REQUIRED_COLS \<and> COL_FRENTE \<notin> set (columns two_column_frame) \<and>
   (\<exists>ms. validate_df two_column_frame = Inl (ValueError ms) \<and> distinct ms \<and>
         set ms = {c \<in> set REQUIRED_COLS. c \<notin> set (columns two_column_frame)}) \<and>
   validate_df two_column_frame = Inl (ValueError [COL_FRENTE, COL_N_PRODUTOS])"
proof -
  have a: "\<forall>c \<in> set REQUIRED_COLS. c \<in> set (columns sample_frame)"
    by (simp add: sample_frame_def)
  have m: "COL_FRENTE \<in> set REQUIRED_COLS" by (simp add: REQUIRED_COLS_def)
  have n: "COL_FRENTE \<notin> set (columns two_column_frame)"
    by (simp add: two_column_frame_def COL_FRENTE_def COL_EMPRESA_def COL_PRODUTO_def)
  from m n have b: "\<exists>c \<in> set REQUIRED_COLS. c \<notin> set (columns two_column_frame)" by blast
  have v: "validate_df two_column_frame = Inl (ValueError [COL_FRENTE, COL_N_PRODUTOS])"
    by (simp add: validate_df_def two_column_frame_def REQUIRED_COLS_def
        COL_FRENTE_def COL_EMPRESA_def COL_PRODUTO_def COL_N_PRODUTOS_def)
  from validate_df_names_all_missing [of sample_frame, THEN conjunct1, THEN mp, OF a]
    validate_df_names_all_missing [of two_column_frame, THEN conjunct2, THEN mp, OF b] m n v
  show ?thesis by simp
qed

text \<open>
  C7. On a client table that is not empty, with no client selected, the range filter
  with the minimum and the maximum of the selected metric as its bounds returns the table
  as it is, for either metric; so do the bounds that the script takes from the table to
  seed the sliders.
\<close>

theorem range_filter_identity_at_bounds:
  "clients \<noteq> [] \<Longrightarrow>
     apply_filters Frentes (min_max (map n_frentes clients)) [] clients = clients \<and>
     apply_filters Produtos (min_max (map n_produtos clients)) [] clients = clients \<and>
     (\<forall>ui cs fr pr m. data_section df = (ui, Some (cs, fr, pr)) \<longrightarrow>
        apply_filters m (slider_default m fr pr) [] cs = cs)"
proof (intro conjI allI impI)
  show "apply_filters Frentes (min_max (map n_frentes clients)) [] clients = clients"
    by (simp add: apply_filters_def list_filter_def range_filter_def between_min_max)
  show "apply_filters Produtos (min_max (map n_produtos clients)) [] clients = clients"
    by (simp add: apply_filters_def list_filter_def range_filter_def between_min_max)
next
  fix ui cs fr pr m
  assume "data_section df = (ui, Some (cs, fr, pr))"
  then have fr: "fr = min_max (map n_frentes cs)" and pr: "pr = min_max (map n_produtos cs)"
    by (auto simp: data_section_def Let_def split: if_splits)
  show "apply_filters m (slider_default m fr pr) [] cs = cs"
    unfolding fr pr
    by (simp add: apply_filters_def list_filter_def range_filter_def slider_default_def between_min_max)
qed

theorem range_filter_identity_at_bounds_witness:
  "[acme_summary, beta_summary] \<noteq> [] \<and>
   min_max (map n_produtos [acme_summary, beta_summary]) = (3, 5) \<and>
   apply_filters Frentes (min_max (map n_frentes [acme_summary, beta_summary])) []
      [acme_summary, beta_summary] = [acme_summary, beta_summary] \<and>
   apply_filters Produtos (min_max (map n_produtos [acme_summary, beta_summary])) []
      [acme_summary, beta_summary] = [acme_summary, beta_summary] \<and>
   data_section (ensure_metrics sample_frame) =
      ([], Some ([acme_summary, beta_summary], (1, 2), (3, 5))) \<and>
   apply_filters Produtos (slider_default Produtos (1, 2) (3, 5)) []
      [acme_summary, beta_summary] = [acme_summary, beta_summary]"
proof -
  have n: "[acme_summary, beta_summary] \<noteq> []" by simp
  have b: "min_max (map n_produtos [acme_summary, beta_summary]) = (3, 5)"
    by (simp add: min_max_def acme_summary_def beta_summary_def)
  note t = range_filter_identity_at_bounds [OF n, of "ensure_metrics sample_frame"]
  from t [THEN conjunct2, THEN conjunct2, rule_format, OF sample_data_section, of Produtos]
    t [THEN conjunct1] t [THEN conjunct2, THEN conjunct1] n b sample_data_section
  show ?thesis by simp
qed

text \<open>
  C8. With a list of selected clients that is not empty, the filtered table is the client
  table restricted to the rows whose selected metric lies in the closed range and whose
  name is, character for character, one of the selected names: both conditions at once.
\<close>

theorem filters_are_conjunction:
  "selected \<noteq> [] \<Longrightarrow>
     apply_filters m (lo, hi) selected clients =
       filter (\<lambda>r. lo \<le> value_col m r \<and> value_col m r \<le> hi \<and> nome r \<in> set selected) clients"
  by (auto simp: apply_filters_def list_filter_def range_filter_def value_col_def between_def
      intro: filter_cong)

theorem filters_are_conjunction_witness:
  "[''Beta'', ''Zeta''] \<noteq> [] \<and>
   apply_filters Produtos (4, 10) [''Beta'', ''Zeta''] [acme_summary, beta_summary] = [] \<and>
   apply_filters Produtos (4, 10) [''Beta'', ''Zeta''] [acme_summary, beta_summary] =
     filter (\<lambda>r. 4 \<le> value_col Produtos r \<and> value_col Produtos r \<le> 10 \<and>
                 nome r \<in> set [''Beta'', ''Zeta'']) [acme_summary, beta_summary]"
proof -
  have n: "[''Beta'', ''Zeta''] \<noteq> ([] :: string list)" by simp
  have e: "filter (\<lambda>r. 4 \<le> value_col Produtos r \<and> value_col Produtos r \<le> 10 \<and>
                 nome r \<in> set [''Beta'', ''Zeta'']) [acme_summary, beta_summary] = []"
    by (simp add: value_col_def acme_summary_def beta_summary_def)
  from filters_are_conjunction [OF n, of Produtos 4 10 "[acme_summary, beta_summary]"] e n
  show ?thesis by simp
qed

text \<open>
  C9. When the filters leave no row, the rest of the run puts one warning on the page and
  stops there: no chart, metric or table is drawn, and nothing is reported as an error.
\<close>

theorem empty_result_warns_and_stops:
  "apply_filters m metric_range selected clients = [] \<Longrightarrow>
     (\<exists>msg. presentation m top_n df (apply_filters m metric_range selected clients)
               = ([Warning msg], False)) \<and>
     \<not> list_ex draws_data (fst (presentation m top_n df (apply_filters m metric_range selected clients))) \<and>
     \<not> list_ex is_error (fst (presentation m top_n df (apply_filters m metric_range selected clients)))"
  by (simp add: presentation_def)

theorem empty_result_warns_and_stops_witness:
  "apply_filters Produtos (10, 20) [] [acme_summary, beta_summary] = [] \<and>
   (\<exists>msg. presentation Produtos 60 (ensure_metrics sample_frame)
            (apply_filters Produtos (10, 20) [] [acme_summary, beta_summary]) = ([Warning msg], False)) \<and>
   \<not> list_ex draws_data (fst (presentation Produtos 60 (ensure_metrics sample_frame)
            (apply_filters Produtos (10, 20) [] [acme_summary, beta_summary]))) \<and>
   list_ex draws_data (fst (presentation Produtos 60 (ensure_metrics sample_frame)
            (apply_filters Produtos (4, 10) [] [acme_summary, beta_summary])))"
proof -
  have e: "apply_filters Produtos (10, 20) [] [acme_summary, beta_summary] = []"
    by (simp add: apply_filters_def list_filter_def range_filter_def between_def
        acme_summary_def beta_summary_def)
  have f: "apply_filters Produtos (4, 10) [] [acme_summary, beta_summary] = [acme_summary]"
    by (simp add: apply_filters_def list_filter_def range_filter_def between_def
        acme_summary_def beta_summary_def)
  have d: "list_ex draws_data (fst (presentation Produtos 60 (ensure_metrics sample_frame)
            (apply_filters Produtos (4, 10) [] [acme_summary, beta_summary])))"
    unfolding f by (simp add: presentation_def)
  from empty_result_warns_and_stops [OF e, of 60 "ensure_metrics sample_frame"] e d
  show ?thesis by blast
qed

text \<open>
  C10. A load that fails leaves the session as it was. Each of the two handlers either
  ends in an exception with the session and the page untouched, or ends normally with
  the session holding the metrics of a table that was loaded and that passed
  \<open>validate_df\<close>; in particular an uploaded table that fails validation changes
  nothing.
\<close>

theorem failed_load_keeps_session:
  "(\<forall>s' ui r. on_use_default fs s = (s', ui, r) \<longrightarrow>
      (r \<noteq> None \<and> s' = s \<and> ui = []) \<or>
      (r = None \<and> (\<exists>d. load_default_df fs = Inr d \<and> validate_df d = Inr () \<and>
         s' = s\<lparr>df_cached := Some (ensure_metrics d), client_list := Some []\<rparr>))) \<and>
   (\<forall>s' ui r. on_use_uploaded wb s = (s', ui, r) \<longrightarrow>
      (r \<noteq> None \<and> s' = s \<and> ui = []) \<or>
      (r = None \<and> (\<exists>d. load_uploaded_df wb = Inr d \<and> validate_df d = Inr () \<and>
         s' = s\<lparr>df_cached := Some (ensure_metrics d), client_list := Some []\<rparr>))) \<and>
   (\<forall>d e. load_uploaded_df wb = Inr d \<and> validate_df d = Inl e \<longrightarrow>
      on_use_uploaded wb s = (s, [], Some e))"
  by (auto simp: on_use_default_def on_use_uploaded_def split: sum.splits)

theorem failed_load_keeps_session_witness:
  "load_uploaded_df two_column_workbook = Inr two_column_frame \<and>
   validate_df two_column_frame = Inl (ValueError [COL_FRENTE, COL_N_PRODUTOS]) \<and>
   on_use_uploaded two_column_workbook active_session =
     (active_session, [], Some (ValueError [COL_FRENTE, COL_N_PRODUTOS])) \<and>
   on_use_default sample_fs active_session =
     (active_session, [], Some (NameError ''DEFAULT_FILE'')) \<and>
   df_cached active_session = Some (ensure_metrics sample_frame)"
proof -
  note t = failed_load_keeps_session [of sample_fs active_session two_column_workbook]
  have u: "on_use_uploaded two_column_workbook active_session =
     (active_session, [], Some (ValueError [COL_FRENTE, COL_N_PRODUTOS]))"
    using t [THEN conjunct2, THEN conjunct2, rule_format,
        OF conjI [OF two_column_workbook_loads two_column_frame_invalid]] .
  obtain s' ui r where o: "on_use_default sample_fs active_session = (s', ui, r)"
    by (metis prod_cases3)
  have r: "r = Some (NameError ''DEFAULT_FILE'')"
    using o by (simp add: on_use_default_def load_default_df_raises)
  from t [THEN conjunct1, rule_format, OF o] r
  have "s' = active_session \<and> ui = []" by simp
  with o r have d: "on_use_default sample_fs active_session =
     (active_session, [], Some (NameError ''DEFAULT_FILE''))" by simp
  have c: "df_cached active_session = Some (ensure_metrics sample_frame)"
    by (simp add: active_session_def)
  from two_column_workbook_loads two_column_frame_invalid u d c show ?thesis by blast
qed

end
